theory Spec2Isabelle
  imports Main "HOL-Library.Monad_Syntax"
begin

section \<open>Python values, strings and exceptions\<close>

text \<open>
  The values that travel as keyword arguments of a request: \<open>None\<close>, an integer
  (the timeout), a string, or a dictionary (headers, form data, JSON body).
  A dictionary keeps its insertion order, as Python's \<open>dict\<close> does.
\<close>

datatype pyval = PyNone | PyInt int | PyStr string | PyDict "(string \<times> pyval) list"

type_synonym kwargs = "(string \<times> pyval) list"

text \<open>
  \<open>str.upper()\<close> on the ASCII letters; every other character is left as it is.
  The method names that reach \<open>upper\<close> are the literals \<open>get\<close>, \<open>post\<close>,
  \<open>put\<close> and \<open>delete\<close>.
\<close>

definition upper_char :: "char \<Rightarrow> char" where
  "upper_char c =
     (case map_of (zip ''abcdefghijklmnopqrstuvwxyz'' ''ABCDEFGHIJKLMNOPQRSTUVWXYZ'') c of
        Some u \<Rightarrow> u
      | None \<Rightarrow> c)"

definition upper :: "string \<Rightarrow> string" where
  "upper s = map upper_char s"

text \<open>\<open>str(n)\<close> of a Python integer: decimal digits, with a minus sign below zero.\<close>

definition digit_char :: "nat \<Rightarrow> char" where
  "digit_char d = ''0123456789'' ! (d mod 10)"

fun str_nat :: "nat \<Rightarrow> string" where
  "str_nat n = (if n < 10 then [digit_char n] else str_nat (n div 10) @ [digit_char (n mod 10)])"

declare str_nat.simps [simp del]

definition str_int :: "int \<Rightarrow> string" where
  "str_int i = (if i < 0 then CHR ''-'' # str_nat (nat (- i)) else str_nat (nat i))"

text \<open>
  A raised exception: the names of its class and of the classes it inherits from
  (its method resolution order), and the text \<open>str(e)\<close> gives.
  \<open>except (A, B, C) as e\<close> catches \<open>e\<close> when one of the listed classes is among
  the classes of \<open>e\<close>.
\<close>

record exception =
  exc_mro :: "string list"
  exc_str :: string

definition isinstance :: "exception \<Rightarrow> string list \<Rightarrow> bool" where
  "isinstance e classes = list_ex (\<lambda>c. c \<in> set classes) (exc_mro e)"

text \<open>The \<open>Result\<close> of the \<open>result\<close> package: exactly one of \<open>Ok\<close> and \<open>Err\<close>.\<close>

datatype ('a, 'e) result = Ok 'a | Err 'e

section \<open>The world outside the client\<close>

text \<open>
  An \<open>httpx.Response\<close> is opaque to the client, which only wraps it.
\<close>

record response =
  status_code :: int
  content :: string

text \<open>
  An \<open>httpx.AsyncClient\<close> object: its identity and the \<open>verify\<close> flag it was
  built with.
\<close>

record async_client =
  client_id :: nat
  verify :: bool

text \<open>What one awaited call of a request method does: it returns a response or raises.\<close>

datatype outcome = Response response | Raises exception

text \<open>
  A request method of the pooled client, \<open>getattr(client, method)\<close>. Its outcome may
  depend on the URL, on the keyword arguments and on how many underlying calls were
  made before it (the network answers differently from one call to the next).
\<close>

type_synonym request_func = "nat \<Rightarrow> string \<Rightarrow> kwargs \<Rightarrow> outcome"

text \<open>
  The attributes of a pooled client: \<open>None\<close> where the client has no attribute of that
  name, in which case \<open>getattr\<close> raises \<open>AttributeError\<close>.
\<close>

type_synonym transport = "async_client \<Rightarrow> string \<Rightarrow> request_func option"

record call =
  call_client :: async_client
  call_method :: string
  call_url :: string
  call_kwargs :: kwargs

text \<open>
  The lines that a logging call would write. The first debug line of a request carries
  the keyword arguments as a value rather than as their \<open>repr\<close> text.
\<close>

datatype log_line =
    Debug string
  | Debug_sending string string kwargs
  | Info string
  | Error string

record world =
  calls :: "call list"
  logged :: "log_line list"
  created :: nat
  closed :: "async_client list"

text \<open>
  The name \<open>logger\<close> in \<open>http.py\<close>: \<open>from app.services import logger\<close> binds the
  module \<open>app/services/logger.py\<close> (\<open>main.py\<close> uses the same name as that module,
  for its \<open>create_logger\<close>). Besides the attributes that every module has, these
  are the names the module binds at its top level;
  \<open>debug\<close>, \<open>info\<close> and \<open>error\<close> are methods of its class \<open>Logger\<close> and are not
  among them.
\<close>

definition logger_module :: "string list" where
  "logger_module =
     [''sys'', ''Any'', ''Optional'', ''Union'', ''Path'', ''logger'', ''LogLevel'',
      ''HandlerId'', ''LoggerConfig'', ''Logger'', ''LoggerFactory'', ''create_logger'',
      ''create_file_logger'']"

definition module_attribute_error :: "string \<Rightarrow> exception" where
  "module_attribute_error name =
     \<lparr>exc_mro = [''AttributeError'', ''Exception'', ''BaseException''],
      exc_str = ''module '' @ [CHR 0x27] @ ''app.services.logger'' @ [CHR 0x27]
                  @ '' has no attribute '' @ [CHR 0x27] @ name @ [CHR 0x27]\<rparr>"

text \<open>
  \<open>logger.name(...)\<close> in \<open>http.py\<close>: the attribute is looked up on the module first,
  and a name the module does not bind raises \<open>AttributeError\<close> before anything is
  logged. Under a name that is bound, the call is taken to write its line.
\<close>

definition logger_call :: "string \<Rightarrow> log_line \<Rightarrow> world \<Rightarrow> exception + world" where
  "logger_call name line w =
     (if name \<in> set logger_module then Inr (w\<lparr>logged := logged w @ [line]\<rparr>)
      else Inl (module_attribute_error name))"

definition logger_debug :: "string \<Rightarrow> world \<Rightarrow> exception + world" where
  "logger_debug msg w = logger_call ''debug'' (Debug msg) w"

definition logger_info :: "string \<Rightarrow> world \<Rightarrow> exception + world" where
  "logger_info msg w = logger_call ''info'' (Info msg) w"

definition logger_error :: "string \<Rightarrow> world \<Rightarrow> exception + world" where
  "logger_error msg w = logger_call ''error'' (Error msg) w"

section \<open>HTTPClientConfig and HTTPClient\<close>

record http_client_config =
  default_timeout :: int
  max_retries :: int
  verify_ssl :: bool
  retryable_exceptions :: "string list"

definition HTTPClientConfig ::
  "int \<Rightarrow> int \<Rightarrow> bool \<Rightarrow> string list option \<Rightarrow> http_client_config" where
  "HTTPClientConfig dt mr vs re =
     \<lparr>default_timeout = dt, max_retries = mr, verify_ssl = vs,
      retryable_exceptions =
        (case re of
           None \<Rightarrow> [''ConnectTimeout'', ''RemoteProtocolError'', ''ReadTimeout'']
         | Some excs \<Rightarrow> excs)\<rparr>"

text \<open>\<open>HTTPClientConfig()\<close> with every default.\<close>

definition default_config :: http_client_config where
  "default_config = HTTPClientConfig 5 5 True None"

record http_client =
  config :: http_client_config
  client :: "async_client option"

definition HTTPClient :: "async_client option \<Rightarrow> http_client_config option \<Rightarrow> http_client" where
  "HTTPClient c cfg =
     \<lparr>config = (case cfg of None \<Rightarrow> default_config | Some k \<Rightarrow> k), client = c\<rparr>"

text \<open>\<open>AsyncClient(verify=...)\<close>: a new object, counted by the world.\<close>

definition AsyncClient :: "bool \<Rightarrow> world \<Rightarrow> async_client \<times> world" where
  "AsyncClient v w = (\<lparr>client_id = created w, verify = v\<rparr>, w\<lparr>created := Suc (created w)\<rparr>)"

definition get_client :: "http_client \<Rightarrow> world \<Rightarrow> async_client \<times> http_client \<times> world" where
  "get_client h w =
     (case client h of
        None \<Rightarrow>
          (let (c, w') = AsyncClient (verify_ssl (config h)) w
           in (c, h\<lparr>client := Some c\<rparr>, w'))
      | Some c \<Rightarrow> (c, h, w))"

text \<open>
  \<open>close\<close>: \<open>aclose()\<close> on the pooled client, if there is one, then the reference
  is set to \<open>None\<close>, then the logging call. The first component is the exception that
  leaves \<open>close\<close>, if one does.
\<close>

definition close :: "http_client \<Rightarrow> world \<Rightarrow> exception option \<times> http_client \<times> world" where
  "close h w =
     (case client h of
        None \<Rightarrow> (None, h, w)
      | Some c \<Rightarrow>
          (let w1 = w\<lparr>closed := closed w @ [c]\<rparr>;
               h1 = h\<lparr>client := None\<rparr>
           in case logger_info ''Closed HTTP client.'' w1 of
                Inl e \<Rightarrow> (Some e, h1, w1)
              | Inr w2 \<Rightarrow> (None, h1, w2)))"

text \<open>
  What a call of \<open>_send_request\<close> gives its caller: a \<open>Result\<close> that it returns,
  or an exception that leaves it.
\<close>

datatype send_result = Returned "(response, string) result" | Raised exception

text \<open>\<open>range(n)\<close>: empty when \<open>n\<close> is zero or negative.\<close>

definition py_range :: "int \<Rightarrow> int list" where
  "py_range n = map int [0..<nat n]"

text \<open>The code after the loop: build the message, log it, return \<open>Err\<close>.\<close>

definition exhausted ::
  "http_client_config \<Rightarrow> string \<Rightarrow> string \<Rightarrow> string \<Rightarrow> world \<Rightarrow> send_result \<times> world" where
  "exhausted cfg method url last_error w =
     (let error_message =
            ''Failed to '' @ upper method @ '' '' @ url @ '' after ''
              @ str_int (max_retries cfg) @ '' attempts: '' @ last_error
      in case logger_error error_message w of
           Inl e \<Rightarrow> (Raised e, w)
         | Inr w1 \<Rightarrow> (Returned (Err error_message), w1))"

text \<open>
  The \<open>for attempt in range(max_retries)\<close> loop, over the attempts still to make.
  Each attempt is one underlying call, recorded in the world. An exception raised by the
  logging call inside the handler leaves the loop.
\<close>

fun attempts ::
  "http_client_config \<Rightarrow> request_func \<Rightarrow> async_client \<Rightarrow> string \<Rightarrow> string \<Rightarrow> kwargs
     \<Rightarrow> int list \<Rightarrow> string \<Rightarrow> world \<Rightarrow> send_result \<times> world" where
  "attempts cfg request_func c method url kw [] last_error w =
     exhausted cfg method url last_error w"
| "attempts cfg request_func c method url kw (attempt # rest) last_error w =
     (let w1 = w\<lparr>calls := calls w
                  @ [\<lparr>call_client = c, call_method = method, call_url = url, call_kwargs = kw\<rparr>]\<rparr>
      in case request_func (length (calls w)) url kw of
           Response r \<Rightarrow> (Returned (Ok r), w1)
         | Raises e \<Rightarrow>
             if isinstance e (retryable_exceptions cfg) then
               (case logger_debug
                       (''Retry attempt '' @ str_int (attempt + 1) @ ''/''
                          @ str_int (max_retries cfg) @ '': '' @ upper method
                          @ '' -> '' @ url) w1 of
                  Inl err \<Rightarrow> (Raised err, w1)
                | Inr w2 \<Rightarrow>
                    (let last_error' =
                           (if attempt = max_retries cfg - 1 then exc_str e else last_error)
                     in attempts cfg request_func c method url kw rest last_error' w2))
             else (Raised e, w1))"

definition AttributeError :: "string \<Rightarrow> exception" where
  "AttributeError name =
     \<lparr>exc_mro = [''AttributeError'', ''Exception'', ''BaseException''],
      exc_str = [CHR 0x27] @ ''AsyncClient'' @ [CHR 0x27] @ '' object has no attribute ''
                  @ [CHR 0x27] @ name @ [CHR 0x27]\<rparr>"

definition send_request ::
  "transport \<Rightarrow> http_client \<Rightarrow> string \<Rightarrow> string \<Rightarrow> kwargs \<Rightarrow> world
     \<Rightarrow> send_result \<times> http_client \<times> world" where
  "send_request tr h method url kw w =
     (let (c, h', w1) = get_client h w
      in case tr c method of
           None \<Rightarrow> (Raised (AttributeError method), h', w1)
         | Some request_func \<Rightarrow>
             (case logger_call ''debug'' (Debug_sending (upper method) url kw) w1 of
                Inl err \<Rightarrow> (Raised err, h', w1)
              | Inr w2 \<Rightarrow>
                  (let (r, w3) = attempts (config h') request_func c method url kw
                                   (py_range (max_retries (config h'))) [] w2
                   in (r, h', w3))))"

text \<open>\<open>timeout or self.config.default_timeout\<close>: the default replaces every falsy timeout.\<close>

definition timeout_or :: "int option \<Rightarrow> int \<Rightarrow> int" where
  "timeout_or timeout dflt =
     (case timeout of None \<Rightarrow> dflt | Some t \<Rightarrow> if t = 0 then dflt else t)"

definition get ::
  "transport \<Rightarrow> http_client \<Rightarrow> string \<Rightarrow> pyval \<Rightarrow> int option \<Rightarrow> world
     \<Rightarrow> send_result \<times> http_client \<times> world" where
  "get tr h url headers timeout w =
     send_request tr h ''get'' url
       [(''headers'', headers),
        (''timeout'', PyInt (timeout_or timeout (default_timeout (config h))))] w"




section \<open>Settings\<close>

datatype Environment = DEVELOPMENT | TESTING | STAGING | PRODUCTION

text \<open>\<open>Environment(value)\<close>: the member whose value is exactly the given text.\<close>

definition Environment_of :: "string \<Rightarrow> Environment option" where
  "Environment_of s =
     (if s = ''development'' then Some DEVELOPMENT
      else if s = ''testing'' then Some TESTING
      else if s = ''staging'' then Some STAGING
      else if s = ''production'' then Some PRODUCTION
      else None)"

datatype settings_class =
    BaseAppSettings
  | DevelopmentSettings
  | TestingSettings
  | StagingSettings
  | ProductionSettings

text \<open>
  A settings object: the class it is an instance of, its identity, and its fields.
  \<open>TESTING\<close> is a field of \<open>TestingSettings\<close> only.
\<close>

record app_settings =
  instance_of :: settings_class
  instance_id :: nat
  DEBUG :: bool
  HOST :: string
  PORT :: int
  API_PREFIX :: string
  CORS_ALLOW_ALL_ORIGINS :: bool
  PROJECT_NAME :: string
  PROJECT_VERSION :: string
  ENVIRONMENT :: Environment
  TESTING_field :: "bool option"

text \<open>The defaults that the classes declare for the two fields they override.\<close>

fun default_DEBUG :: "settings_class \<Rightarrow> bool" where
  "default_DEBUG BaseAppSettings = False"
| "default_DEBUG DevelopmentSettings = True"
| "default_DEBUG TestingSettings = True"
| "default_DEBUG StagingSettings = False"
| "default_DEBUG ProductionSettings = False"

fun default_CORS_ALLOW_ALL_ORIGINS :: "settings_class \<Rightarrow> bool" where
  "default_CORS_ALLOW_ALL_ORIGINS BaseAppSettings = False"
| "default_CORS_ALLOW_ALL_ORIGINS DevelopmentSettings = True"
| "default_CORS_ALLOW_ALL_ORIGINS TestingSettings = False"
| "default_CORS_ALLOW_ALL_ORIGINS StagingSettings = False"
| "default_CORS_ALLOW_ALL_ORIGINS ProductionSettings = False"

text \<open>
  The process as the settings loader sees it.
  \<^item> \<open>env_source path name\<close> is the text that the settings library finds for the
    variable \<open>name\<close> when the environment file is \<open>path\<close>: the process environment
    variable of that name when it is set, else the entry of the file; \<open>None\<close> when
    neither has it (a file that does not exist has no entries).
  \<^item> \<open>int_of_text\<close> is the library's validation of an integer field.
  \<^item> \<open>reads\<close> counts how often the environment was read (once per construction of a
    settings object), \<open>instances\<close> how many settings objects were constructed.
  \<^item> \<open>create_cache\<close> is the store of the \<open>lru_cache\<close> on \<open>create\<close>, the most
    recently used entry first.
\<close>

datatype env_file_arg = Str string | Path string

type_synonym cache_key = "env_file_arg option \<times> string option"

record process =
  env_source :: "string \<Rightarrow> string \<Rightarrow> string option"
  int_of_text :: "string \<Rightarrow> int option"
  reads :: nat
  instances :: nat
  create_cache :: "(cache_key \<times> app_settings) list"

datatype settings_error = ValidationError

definition lower_char :: "char \<Rightarrow> char" where
  "lower_char c =
     (case map_of (zip ''ABCDEFGHIJKLMNOPQRSTUVWXYZ'' ''abcdefghijklmnopqrstuvwxyz'') c of
        Some l \<Rightarrow> l
      | None \<Rightarrow> c)"

text \<open>The library's validation of a boolean field given as text.\<close>

definition validate_bool :: "string \<Rightarrow> bool option" where
  "validate_bool s =
     (let l = map lower_char s
      in if l \<in> set [''1'', ''true'', ''t'', ''yes'', ''y'', ''on''] then Some True
         else if l \<in> set [''0'', ''false'', ''f'', ''no'', ''n'', ''off''] then Some False
         else None)"

text \<open>A field takes its default when no text is given for it, else the validated text.\<close>

definition field :: "'a \<Rightarrow> (string \<Rightarrow> 'a option) \<Rightarrow> string option \<Rightarrow> 'a option" where
  "field dflt validate text = (case text of None \<Rightarrow> Some dflt | Some t \<Rightarrow> validate t)"

text \<open>
  A field whose alias differs from its name: with \<open>populate_by_name = True\<close> the text
  is looked for under the alias first, then under the name of the field.
\<close>

definition aliased :: "(string \<Rightarrow> string option) \<Rightarrow> string \<Rightarrow> string \<Rightarrow> string option" where
  "aliased src alias name = (case src alias of Some v \<Rightarrow> Some v | None \<Rightarrow> src name)"

text \<open>
  The validation of the fields of class \<open>cls\<close>, where \<open>src\<close> gives the text found
  for a variable: each field takes the validated text, or the default of the class when
  there is no text. \<open>None\<close> when a text does not validate.
\<close>

definition validated_fields ::
  "settings_class \<Rightarrow> (string \<Rightarrow> string option) \<Rightarrow> (string \<Rightarrow> int option) \<Rightarrow> nat
     \<Rightarrow> app_settings option" where
  "validated_fields cls src validate_int ident =
     do {
       debug \<leftarrow> field (default_DEBUG cls) validate_bool (src ''DEBUG'');
       host \<leftarrow> field ''127.0.0.1'' Some (aliased src ''API_HOST'' ''HOST'');
       port \<leftarrow> field 8000 validate_int (aliased src ''API_PORT'' ''PORT'');
       api_prefix \<leftarrow> field ''/api'' Some (src ''API_PREFIX'');
       cors \<leftarrow> field (default_CORS_ALLOW_ALL_ORIGINS cls) validate_bool
                 (src ''CORS_ALLOW_ALL_ORIGINS'');
       project_name \<leftarrow> field ''HamkeeFastAPI'' Some (src ''PROJECT_NAME'');
       project_version \<leftarrow> field ''2025.01'' Some (src ''PROJECT_VERSION'');
       environment \<leftarrow> field DEVELOPMENT Environment_of (src ''ENVIRONMENT'');
       testing \<leftarrow> (if cls = TestingSettings
                   then map_option Some (field True validate_bool (src ''TESTING''))
                   else Some None);
       Some \<lparr>instance_of = cls, instance_id = ident, DEBUG = debug, HOST = host,
             PORT = port, API_PREFIX = api_prefix, CORS_ALLOW_ALL_ORIGINS = cors,
             PROJECT_NAME = project_name, PROJECT_VERSION = project_version,
             ENVIRONMENT = environment, TESTING_field = testing\<rparr>
     }"

text \<open>
  The text found for a variable by a construction with keyword arguments \<open>kw\<close>: the
  keyword argument of that name, else what the environment gives under the file named by
  \<open>_env_file\<close>, which replaces the file \<open>.env\<close> of \<open>Config\<close>.
\<close>

definition settings_source :: "(string \<times> string) list \<Rightarrow> process \<Rightarrow> string \<Rightarrow> string option" where
  "settings_source kw w name =
     (let path = (case map_of kw ''_env_file'' of Some p \<Rightarrow> p | None \<Rightarrow> ''.env'')
      in case map_of kw name of Some v \<Rightarrow> Some v | None \<Rightarrow> env_source w path name)"

text \<open>
  The construction of a settings object of class \<open>cls\<close> from keyword arguments.
  It reads the environment once; a text that does not validate raises
  \<open>ValidationError\<close>, and no object is made.
\<close>

definition construct ::
  "settings_class \<Rightarrow> (string \<times> string) list \<Rightarrow> process \<Rightarrow> (settings_error + app_settings) \<times> process" where
  "construct cls kw w =
     (let w' = w\<lparr>reads := Suc (reads w)\<rparr>
      in case validated_fields cls (settings_source kw w) (int_of_text w) (instances w) of
           None \<Rightarrow> (Inl ValidationError, w')
         | Some s \<Rightarrow> (Inr s, w'\<lparr>instances := Suc (instances w)\<rparr>))"

definition env_settings_map :: "(Environment \<times> settings_class) list" where
  "env_settings_map =
     [(DEVELOPMENT, DevelopmentSettings),
      (TESTING, TestingSettings),
      (STAGING, StagingSettings),
      (PRODUCTION, ProductionSettings)]"

text \<open>
  \<open>if env_file:\<close> holds for a non-empty string and for every \<open>Path\<close>;
  \<open>str(env_file)\<close> is the string itself or the text of the path.
\<close>

fun base_kwargs_env_file :: "env_file_arg option \<Rightarrow> (string \<times> string) list" where
  "base_kwargs_env_file None = []"
| "base_kwargs_env_file (Some (Str s)) = (if s = [] then [] else [(''_env_file'', s)])"
| "base_kwargs_env_file (Some (Path p)) = [(''_env_file'', p)]"

fun base_kwargs_environment :: "string option \<Rightarrow> (string \<times> string) list" where
  "base_kwargs_environment None = []"
| "base_kwargs_environment (Some e) = (if e = [] then [] else [(''ENVIRONMENT'', e)])"

text \<open>The body of \<open>SettingsFactory.create\<close>, under its cache.\<close>

definition create_body ::
  "env_file_arg option \<Rightarrow> string option \<Rightarrow> process \<Rightarrow> (settings_error + app_settings) \<times> process" where
  "create_body env_file environment w =
     (let base_kwargs = base_kwargs_env_file env_file @ base_kwargs_environment environment
      in case construct BaseAppSettings base_kwargs w of
           (Inl err, w1) \<Rightarrow> (Inl err, w1)
         | (Inr base_settings, w1) \<Rightarrow>
             (let environment_enum = ENVIRONMENT base_settings;
                  settings_class = (case map_of env_settings_map environment_enum of
                                      Some cls \<Rightarrow> cls
                                    | None \<Rightarrow> DevelopmentSettings)
              in construct settings_class base_kwargs w1))"

text \<open>
  \<open>@lru_cache\<close> with its default size of 128 entries. A call whose arguments are in
  the store returns the stored object and makes the entry the most recent one; any other
  call runs the body, and stores what the body returns (a raised exception stores
  nothing), dropping the least recently used entry when the store is full.
  The key is the pair of arguments as \<open>get_settings\<close> passes them, both by keyword.
\<close>

definition maxsize :: nat where
  "maxsize = 128"

definition create ::
  "env_file_arg option \<Rightarrow> string option \<Rightarrow> process \<Rightarrow> (settings_error + app_settings) \<times> process" where
  "create env_file environment w =
     (let key = (env_file, environment)
      in case map_of (create_cache w) key of
           Some s \<Rightarrow>
             (Inr s, w\<lparr>create_cache := (key, s) # filter (\<lambda>kv. fst kv \<noteq> key) (create_cache w)\<rparr>)
         | None \<Rightarrow>
             (case create_body env_file environment w of
                (Inl err, w1) \<Rightarrow> (Inl err, w1)
              | (Inr s, w1) \<Rightarrow>
                  (Inr s, w1\<lparr>create_cache := take maxsize ((key, s) # create_cache w1)\<rparr>)))"

definition get_settings ::
  "env_file_arg option \<Rightarrow> string option \<Rightarrow> process \<Rightarrow> (settings_error + app_settings) \<times> process" where
  "get_settings env_file environment w = create env_file environment w"

text \<open>A sequence of calls of \<open>get_settings\<close>, one after the other.\<close>

fun get_settings_calls :: "cache_key list \<Rightarrow> process \<Rightarrow> process" where
  "get_settings_calls [] w = w"
| "get_settings_calls (k # ks) w = get_settings_calls ks (snd (get_settings (fst k) (snd k) w))"

section \<open>Application bootstrap\<close>

text \<open>
  The router of \<open>api.urls\<close>, as far as the bootstrap depends on it: the paths of its
  routes.
\<close>

record api_router =
  route_paths :: "string list"

text \<open>
  The application object, as what \<open>main.py\<close> asks of it: the arguments of the
  constructor, the routers included with their prefixes, and the middleware added
  (the latest first).
\<close>

datatype middleware =
  CORSMiddleware (allow_origins: "string list") (allow_credentials: bool)
    (allow_methods: "string list") (allow_headers: "string list")

record fastapi =
  debug :: bool
  title :: string
  version :: string
  routers :: "(api_router \<times> string) list"
  user_middleware :: "middleware list"








section \<open>Concrete scenarios\<close>

text \<open>
  The clients, worlds and request methods of the unit tests, used to run the
  definitions on concrete inputs.
\<close>

definition example_client :: async_client where
  "example_client = \<lparr>client_id = 0, verify = True\<rparr>"

definition example_world :: world where
  "example_world = \<lparr>calls = [], logged = [], created = 1, closed = []\<rparr>"

definition ConnectTimeout :: "string \<Rightarrow> exception" where
  "ConnectTimeout msg =
     \<lparr>exc_mro = [''ConnectTimeout'', ''TimeoutException'', ''TransportError'', ''RequestError'',
                 ''HTTPError'', ''Exception'', ''BaseException''],
      exc_str = msg\<rparr>"

definition ReadTimeout :: "string \<Rightarrow> exception" where
  "ReadTimeout msg =
     \<lparr>exc_mro = [''ReadTimeout'', ''TimeoutException'', ''TransportError'', ''RequestError'',
                 ''HTTPError'', ''Exception'', ''BaseException''],
      exc_str = msg\<rparr>"

definition ValueError :: "string \<Rightarrow> exception" where
  "ValueError msg =
     \<lparr>exc_mro = [''ValueError'', ''Exception'', ''BaseException''], exc_str = msg\<rparr>"

definition always_timeout :: request_func where
  "always_timeout i url kw = Raises (ConnectTimeout ''Connection timeout'')"

definition example_http_client :: "int \<Rightarrow> http_client" where
  "example_http_client n = HTTPClient (Some example_client) (Some (HTTPClientConfig 5 n True None))"

definition example_response :: response where
  "example_response = \<lparr>status_code = 200, content = ''ok''\<rparr>"

definition retry_then_succeed :: request_func where
  "retry_then_succeed i url kw =
     (if i = 0 then Raises (ConnectTimeout ''Connection timeout'')
      else if i = 1 then Raises (ReadTimeout ''Read timeout'')
      else Response example_response)"


definition always_respond :: request_func where
  "always_respond i url kw = Response example_response"

text \<open>
  The precedence of the spec (4.2), written out in two readings. In both, the value
  derived from the environment file in force wins over the default \<open>development\<close>.
  In \<open>environment_as_stated\<close> every argument that is passed wins over the file;
  in \<open>environment_by_precedence\<close> only a non-empty argument does.
\<close>

fun env_file_in_force :: "env_file_arg option \<Rightarrow> string" where
  "env_file_in_force None = ''.env''"
| "env_file_in_force (Some (Str s)) = (if s = [] then ''.env'' else s)"
| "env_file_in_force (Some (Path p)) = p"

definition environment_by_precedence ::
  "process \<Rightarrow> env_file_arg option \<Rightarrow> string option \<Rightarrow> string" where
  "environment_by_precedence w env_file environment =
     (let from_file = (case env_source w (env_file_in_force env_file) ''ENVIRONMENT'' of
                         Some v \<Rightarrow> v
                       | None \<Rightarrow> ''development'')
      in case environment of
           None \<Rightarrow> from_file
         | Some e \<Rightarrow> if e = [] then from_file else e)"

definition environment_as_stated ::
  "process \<Rightarrow> env_file_arg option \<Rightarrow> string option \<Rightarrow> string" where
  "environment_as_stated w env_file environment =
     (case environment of
        Some e \<Rightarrow> e
      | None \<Rightarrow> (case env_source w (env_file_in_force env_file) ''ENVIRONMENT'' of
                   Some v \<Rightarrow> v
                 | None \<Rightarrow> ''development''))"

text \<open>A fresh process whose environment defines nothing.\<close>

definition empty_process :: process where
  "empty_process =
     \<lparr>env_source = (\<lambda>path name. None), int_of_text = (\<lambda>t. None),
      reads = 0, instances = 0, create_cache = []\<rparr>"

text \<open>
  A fresh process whose file \<open>.env\<close> selects production and switches both flags on.
\<close>

definition production_process :: process where
  "production_process =
     \<lparr>env_source =
        (\<lambda>path name.
           if path = ''.env''
           then map_of [(''ENVIRONMENT'', ''production''), (''DEBUG'', ''true''),
                        (''CORS_ALLOW_ALL_ORIGINS'', ''true'')] name
           else None),
      int_of_text = (\<lambda>t. None), reads = 0, instances = 0, create_cache = []\<rparr>"

text \<open>A fresh process whose file \<open>.env\<close> selects staging and nothing else.\<close>

definition staging_process :: process where
  "staging_process =
     \<lparr>env_source =
        (\<lambda>path name. if path = ''.env'' then map_of [(''ENVIRONMENT'', ''staging'')] name else None),
      int_of_text = (\<lambda>t. None), reads = 0, instances = 0, create_cache = []\<rparr>"



text \<open>The settings object that an empty environment gives: the development defaults.\<close>

definition development_defaults :: "nat \<Rightarrow> app_settings" where
  "development_defaults ident =
     \<lparr>instance_of = DevelopmentSettings, instance_id = ident, DEBUG = True,
      HOST = ''127.0.0.1'', PORT = 8000, API_PREFIX = ''/api'',
      CORS_ALLOW_ALL_ORIGINS = True, PROJECT_NAME = ''HamkeeFastAPI'',
      PROJECT_VERSION = ''2025.01'', ENVIRONMENT = DEVELOPMENT, TESTING_field = None\<rparr>"

text \<open>
  One hundred and twenty-eight further argument pairs, each naming an environment file
  of its own: \<open>Path("a")\<close>, \<open>Path("aa")\<close>, and so on.
\<close>

definition other_keys :: "cache_key list" where
  "other_keys = map (\<lambda>n. (Some (Path (replicate (Suc n) CHR ''a'')), None)) [0..<128]"

section \<open>The HTTP client\<close>

lemma logger_call_unbound:
  "logger_call ''debug'' line w = Inl (module_attribute_error ''debug'')"
  "logger_call ''info'' line w = Inl (module_attribute_error ''info'')"
  "logger_call ''error'' line w = Inl (module_attribute_error ''error'')"
  by (simp_all add: logger_call_def logger_module_def)

text \<open>
  Every call of \<open>_send_request\<close> on a client that has the request method ends at its
  first logging call: the exception of the module leaves, and no underlying call has
  been made.
\<close>

lemma send_request_raises:
  "send_request tr h method url kw w =
     (Raised (case tr (fst (get_client h w)) method of
                None \<Rightarrow> AttributeError method
              | Some request_func \<Rightarrow> module_attribute_error ''debug''),
      fst (snd (get_client h w)), snd (snd (get_client h w)))"
  by (cases "get_client h w"; cases "tr (fst (get_client h w)) method")
     (simp_all add: send_request_def logger_call_unbound)

lemma get_client_example:
  "get_client (example_http_client n) example_world
     = (example_client, example_http_client n, example_world)"
  by (simp add: get_client_def example_http_client_def HTTPClient_def)

lemma example_calls: "calls example_world = []"
  by (simp add: example_world_def)

lemma example_retryable:
  "isinstance (ConnectTimeout msg) (retryable_exceptions (config (example_http_client n)))"
  "\<not> isinstance (ValueError msg) (retryable_exceptions (config (example_http_client n)))"
  by (simp_all add: isinstance_def ConnectTimeout_def ValueError_def example_http_client_def
        HTTPClient_def HTTPClientConfig_def)

text \<open>
  Claim C1, on the code. The run of the unit test of the exhausted budget: three
  attempts allowed, every attempt a connect timeout. \<open>get\<close> raises the
  \<open>AttributeError\<close> of \<open>logger.debug\<close> and makes no underlying call, where the claim
  has three calls and an \<open>Err\<close>. Past that line, the handler of the loop raises the
  same way after the first call.
\<close>
theorem exhausted_budget_raises:
  "get (\<lambda>c m. Some always_timeout) (example_http_client 3) ''https://example.com'' PyNone None
       example_world
     = (Raised (module_attribute_error ''debug''), example_http_client 3, example_world)
   \<and> calls example_world = []
   \<and> fst (attempts (config (example_http_client 3)) always_timeout example_client ''get''
            ''https://example.com'' [] (py_range 3) [] example_world)
       = Raised (module_attribute_error ''debug'')"
proof -
  have r: "py_range 3 = [0, 1, 2]" by (simp add: py_range_def upt_rec numeral_3_eq_3)
  show ?thesis
    by (simp add: get_def send_request_raises get_client_example example_calls r
          always_timeout_def example_retryable logger_debug_def logger_call_unbound)
qed

text \<open>
  Claim C2, on the code. The runs of the unit tests of the retries and of the plain
  request: a connect timeout, a read timeout, then a response; and a response at once.
  In both \<open>get\<close> raises the \<open>AttributeError\<close> of \<open>logger.debug\<close> and makes no
  underlying call, where the claim has \<open>Ok\<close> of the response after three calls and
  after one.
\<close>
theorem success_runs_raise:
  "get (\<lambda>c m. Some retry_then_succeed) (example_http_client 3) ''https://example.com'' PyNone
       None example_world
     = (Raised (module_attribute_error ''debug''), example_http_client 3, example_world)
   \<and> get (\<lambda>c m. Some always_respond) (example_http_client 3) ''https://example.com'' PyNone
       None example_world
     = (Raised (module_attribute_error ''debug''), example_http_client 3, example_world)
   \<and> calls example_world = []"
  by (simp add: get_def send_request_raises get_client_example example_calls)


text \<open>
  Claim C9, on the code. With \<open>max_retries = 0\<close>, \<open>get\<close> raises the
  \<open>AttributeError\<close> of \<open>logger.debug\<close>, where the claim has no exception and an
  \<open>Err\<close>; and the code after the loop, entered on its own, raises at \<open>logger.error\<close>
  instead of returning its message.
\<close>
theorem zero_retries_raises:
  "get (\<lambda>c m. Some always_timeout) (example_http_client 0) ''https://example.com'' PyNone None
       example_world
     = (Raised (module_attribute_error ''debug''), example_http_client 0, example_world)
   \<and> fst (attempts (config (example_http_client 0)) always_timeout example_client ''get''
            ''https://example.com'' [] (py_range 0) [] example_world)
       = Raised (module_attribute_error ''error'')"
  by (simp add: get_def send_request_raises get_client_example py_range_def exhausted_def
        logger_error_def logger_call_unbound)


text \<open>
  Claim C6, on the code. \<open>close\<close> on a client that holds a pooled client closes it
  and sets the reference to \<open>None\<close>, and then raises the \<open>AttributeError\<close> of
  \<open>logger.info\<close> instead of returning. A \<open>get\<close> after that constructs a new pooled
  client and stores it, and raises at \<open>logger.debug\<close> without an underlying call: the
  new client is not used.
\<close>
theorem close_raises_and_client_unusable:
  "close (example_http_client 3) example_world
     = (Some (module_attribute_error ''info''),
        \<lparr>config = HTTPClientConfig 5 3 True None, client = None\<rparr>,
        \<lparr>calls = [], logged = [], created = 1, closed = [example_client]\<rparr>)
   \<and> get (\<lambda>c m. Some always_respond) \<lparr>config = HTTPClientConfig 5 3 True None, client = None\<rparr>
         ''https://example.com'' PyNone None
         \<lparr>calls = [], logged = [], created = 1, closed = [example_client]\<rparr>
     = (Raised (module_attribute_error ''debug''),
        \<lparr>config = HTTPClientConfig 5 3 True None,
          client = Some \<lparr>client_id = 1, verify = True\<rparr>\<rparr>,
        \<lparr>calls = [], logged = [], created = 2, closed = [example_client]\<rparr>)"
  by (simp add: close_def logger_info_def logger_call_unbound example_http_client_def
        HTTPClient_def example_world_def get_def send_request_raises get_client_def
        AsyncClient_def HTTPClientConfig_def)

section \<open>Settings and bootstrap\<close>

lemma construct_env_source:
  "env_source (snd (construct cls kw w)) = env_source w"
  by (simp add: construct_def Let_def split: option.splits)

lemma validated_fields_Some:
  assumes "validated_fields cls src vi n = Some s"
  shows "instance_of s = cls"
    and "field (default_DEBUG cls) validate_bool (src ''DEBUG'') = Some (DEBUG s)"
    and "field (default_CORS_ALLOW_ALL_ORIGINS cls) validate_bool (src ''CORS_ALLOW_ALL_ORIGINS'')
           = Some (CORS_ALLOW_ALL_ORIGINS s)"
    and "field DEVELOPMENT Environment_of (src ''ENVIRONMENT'') = Some (ENVIRONMENT s)"
    and "instance_id s = n"
  using assms unfolding validated_fields_def
  by (auto simp: bind_eq_Some_conv)

lemma construct_Inr:
  assumes "fst (construct cls kw w) = Inr s"
  shows "validated_fields cls (settings_source kw w) (int_of_text w) (instances w) = Some s"
  using assms by (simp add: construct_def Let_def split: option.splits)

lemma construct_cases:
  "(\<exists>w'. construct cls kw w = (Inl ValidationError, w'))
   \<or> (\<exists>s w'. construct cls kw w = (Inr s, w'))"
  by (simp add: construct_def Let_def split: option.splits)

lemma create_body_Inr:
  assumes "fst (create_body ef en w) = Inr s"
  shows "\<exists>base. fst (construct BaseAppSettings (base_kwargs_env_file ef @ base_kwargs_environment en) w)
                  = Inr base
           \<and> fst (construct (case map_of env_settings_map (ENVIRONMENT base) of
                                Some cls \<Rightarrow> cls | None \<Rightarrow> DevelopmentSettings)
                     (base_kwargs_env_file ef @ base_kwargs_environment en)
                     (snd (construct BaseAppSettings
                             (base_kwargs_env_file ef @ base_kwargs_environment en) w)))
               = Inr s"
proof -
  let ?kw = "base_kwargs_env_file ef @ base_kwargs_environment en"
  from construct_cases[of BaseAppSettings ?kw w]
  show ?thesis
  proof
    assume "\<exists>w'. construct BaseAppSettings ?kw w = (Inl ValidationError, w')"
    then obtain w' where "construct BaseAppSettings ?kw w = (Inl ValidationError, w')" by blast
    with assms show ?thesis by (simp add: create_body_def Let_def)
  next
    assume "\<exists>b w'. construct BaseAppSettings ?kw w = (Inr b, w')"
    then obtain b w' where c: "construct BaseAppSettings ?kw w = (Inr b, w')" by blast
    with assms show ?thesis by (simp add: create_body_def Let_def)
  qed
qed

lemma source_of_base_kwargs:
  "name \<noteq> ''ENVIRONMENT'' \<Longrightarrow> name \<noteq> ''_env_file'' \<Longrightarrow>
   settings_source (base_kwargs_env_file ef @ base_kwargs_environment en) w name
     = env_source w (env_file_in_force ef) name"
  by (cases ef rule: base_kwargs_env_file.cases; cases en)
     (simp_all add: settings_source_def Let_def)

lemma source_of_base_kwargs_ENVIRONMENT:
  "field DEVELOPMENT Environment_of
     (settings_source (base_kwargs_env_file ef @ base_kwargs_environment en) w ''ENVIRONMENT'')
   = Environment_of (environment_by_precedence w ef en)"
  by (cases ef rule: base_kwargs_env_file.cases; cases en)
     (simp_all add: settings_source_def Let_def environment_by_precedence_def field_def
        Environment_of_def split: option.splits)

lemma settings_source_cong:
  "env_source w1 = env_source w \<Longrightarrow> settings_source kw w1 = settings_source kw w"
  by (rule ext) (simp add: settings_source_def split: option.splits)

lemma map_of_env_settings_map:
  "map_of env_settings_map e =
     Some (case e of DEVELOPMENT \<Rightarrow> DevelopmentSettings | TESTING \<Rightarrow> TestingSettings
           | STAGING \<Rightarrow> StagingSettings | PRODUCTION \<Rightarrow> ProductionSettings)"
  by (cases e) (simp_all add: env_settings_map_def)

lemma create_body_facts:
  assumes "fst (create_body ef en w) = Inr s"
  shows "Environment_of (environment_by_precedence w ef en) = Some (ENVIRONMENT s)"
    and "map_of env_settings_map (ENVIRONMENT s) = Some (instance_of s)"
    and "field (default_DEBUG (instance_of s)) validate_bool
           (env_source w (env_file_in_force ef) ''DEBUG'') = Some (DEBUG s)"
    and "field (default_CORS_ALLOW_ALL_ORIGINS (instance_of s)) validate_bool
           (env_source w (env_file_in_force ef) ''CORS_ALLOW_ALL_ORIGINS'')
           = Some (CORS_ALLOW_ALL_ORIGINS s)"
proof -
  let ?kw = "base_kwargs_env_file ef @ base_kwargs_environment en"
  let ?w1 = "snd (construct BaseAppSettings ?kw w)"
  from create_body_Inr[OF assms] obtain base where
    b: "fst (construct BaseAppSettings ?kw w) = Inr base"
    and s: "fst (construct (case map_of env_settings_map (ENVIRONMENT base) of
                                Some cls \<Rightarrow> cls | None \<Rightarrow> DevelopmentSettings) ?kw ?w1) = Inr s"
    by blast
  have src: "settings_source ?kw ?w1 = settings_source ?kw w"
    by (rule settings_source_cong) (rule construct_env_source)
  note vb = validated_fields_Some[OF construct_Inr[OF b]]
  note vs = validated_fields_Some[OF construct_Inr[OF s], unfolded src]
  have eb: "Environment_of (environment_by_precedence w ef en) = Some (ENVIRONMENT base)"
    using vb(4) by (simp add: source_of_base_kwargs_ENVIRONMENT)
  show e: "Environment_of (environment_by_precedence w ef en) = Some (ENVIRONMENT s)"
    using vs(4) by (simp add: source_of_base_kwargs_ENVIRONMENT)
  from eb e have same: "ENVIRONMENT base = ENVIRONMENT s" by simp
  show "map_of env_settings_map (ENVIRONMENT s) = Some (instance_of s)"
    using vs(1) same by (simp add: map_of_env_settings_map)
  show "field (default_DEBUG (instance_of s)) validate_bool
           (env_source w (env_file_in_force ef) ''DEBUG'') = Some (DEBUG s)"
    using vs(2) vs(1) by (simp add: source_of_base_kwargs)
  show "field (default_CORS_ALLOW_ALL_ORIGINS (instance_of s)) validate_bool
           (env_source w (env_file_in_force ef) ''CORS_ALLOW_ALL_ORIGINS'')
           = Some (CORS_ALLOW_ALL_ORIGINS s)"
    using vs(3) vs(1) by (simp add: source_of_base_kwargs)
qed

lemma create_miss:
  assumes "map_of (create_cache w) (ef, en) = None"
  shows "fst (create ef en w) = fst (create_body ef en w)"
proof -
  from assms show ?thesis
    by (cases "create_body ef en w"; cases "fst (create_body ef en w)")
       (simp_all add: create_def Let_def)
qed

lemma staging_process_explicit_production:
  "fst (create None (Some ''production'') staging_process)
     = Inr \<lparr>instance_of = ProductionSettings, instance_id = 1, DEBUG = False,
            HOST = ''127.0.0.1'', PORT = 8000, API_PREFIX = ''/api'',
            CORS_ALLOW_ALL_ORIGINS = False, PROJECT_NAME = ''HamkeeFastAPI'',
            PROJECT_VERSION = ''2025.01'', ENVIRONMENT = PRODUCTION, TESTING_field = None\<rparr>"
  by code_simp

lemma staging_process_from_file:
  "fst (create None None staging_process)
     = Inr \<lparr>instance_of = StagingSettings, instance_id = 1, DEBUG = False,
            HOST = ''127.0.0.1'', PORT = 8000, API_PREFIX = ''/api'',
            CORS_ALLOW_ALL_ORIGINS = False, PROJECT_NAME = ''HamkeeFastAPI'',
            PROJECT_VERSION = ''2025.01'', ENVIRONMENT = STAGING, TESTING_field = None\<rparr>"
  by code_simp

lemma staging_process_cache: "map_of (create_cache staging_process) k = None"
  by (simp add: staging_process_def)

text \<open>
  Claim C7, as amended. A call of \<open>create\<close> that runs its body and returns a
  settings object has determined the environment by this precedence: the explicit
  argument when it is a non-empty string, else the value derived from the environment
  file, else \<open>development\<close>; and the object is an instance of the class that the
  lookup table gives for that environment.
\<close>
theorem create_environment_precedence:
  assumes "map_of (create_cache w) (env_file, environment) = None"
    and "fst (create env_file environment w) = Inr s"
  shows "Environment_of (environment_by_precedence w env_file environment) = Some (ENVIRONMENT s)
         \<and> map_of env_settings_map (ENVIRONMENT s) = Some (instance_of s)"
proof -
  from assms have "fst (create_body env_file environment w) = Inr s"
    by (simp add: create_miss)
  from create_body_facts(1,2)[OF this] show ?thesis by simp
qed

text \<open>A concrete run: the environment file selects staging and no argument is given.\<close>
theorem create_environment_precedence_witness:
  "fst (create None None staging_process)
     = Inr \<lparr>instance_of = StagingSettings, instance_id = 1, DEBUG = False,
            HOST = ''127.0.0.1'', PORT = 8000, API_PREFIX = ''/api'',
            CORS_ALLOW_ALL_ORIGINS = False, PROJECT_NAME = ''HamkeeFastAPI'',
            PROJECT_VERSION = ''2025.01'', ENVIRONMENT = STAGING, TESTING_field = None\<rparr>
   \<and> Environment_of (environment_by_precedence staging_process None None) = Some STAGING
   \<and> map_of env_settings_map STAGING = Some StagingSettings"
  using create_environment_precedence[OF staging_process_cache staging_process_from_file]
    staging_process_from_file
  by simp

text \<open>
  Claim C7, as stated, fails for an argument that is passed and empty: \<open>if environment:\<close>
  drops it, and the environment of the file is used, although the empty string is the
  name of no environment.
\<close>
theorem create_empty_environment_counterexample:
  "fst (create None (Some []) staging_process)
     = Inr \<lparr>instance_of = StagingSettings, instance_id = 1, DEBUG = False,
            HOST = ''127.0.0.1'', PORT = 8000, API_PREFIX = ''/api'',
            CORS_ALLOW_ALL_ORIGINS = False, PROJECT_NAME = ''HamkeeFastAPI'',
            PROJECT_VERSION = ''2025.01'', ENVIRONMENT = STAGING, TESTING_field = None\<rparr>
   \<and> environment_as_stated staging_process None (Some []) = []
   \<and> Environment_of [] = None"
  by code_simp

text \<open>
  Claim C4, as amended. A settings object that \<open>create\<close> produces for the
  production environment is a \<open>ProductionSettings\<close>, and \<open>DEBUG\<close> and
  \<open>CORS_ALLOW_ALL_ORIGINS\<close> are false where the environment gives no text for them;
  where it does, the flag is the validated text.
\<close>
theorem production_flags_follow_environment:
  assumes "map_of (create_cache w) (env_file, environment) = None"
    and "fst (create env_file environment w) = Inr s"
    and "ENVIRONMENT s = PRODUCTION"
  shows "instance_of s = ProductionSettings
         \<and> (case env_source w (env_file_in_force env_file) ''DEBUG'' of
               None \<Rightarrow> DEBUG s = False
             | Some t \<Rightarrow> validate_bool t = Some (DEBUG s))
         \<and> (case env_source w (env_file_in_force env_file) ''CORS_ALLOW_ALL_ORIGINS'' of
               None \<Rightarrow> CORS_ALLOW_ALL_ORIGINS s = False
             | Some t \<Rightarrow> validate_bool t = Some (CORS_ALLOW_ALL_ORIGINS s))"
proof -
  from assms have b: "fst (create_body env_file environment w) = Inr s"
    by (simp add: create_miss)
  note f = create_body_facts[OF b]
  have cls: "instance_of s = ProductionSettings"
    using f(2) assms(3) by (simp add: env_settings_map_def)
  show ?thesis
    using f(3) f(4) cls by (simp add: field_def split: option.splits)
qed

text \<open>
  A concrete run: the argument selects production over the staging of the file, which
  sets neither flag.
\<close>
theorem production_flags_follow_environment_witness:
  "fst (create None (Some ''production'') staging_process)
     = Inr \<lparr>instance_of = ProductionSettings, instance_id = 1, DEBUG = False,
            HOST = ''127.0.0.1'', PORT = 8000, API_PREFIX = ''/api'',
            CORS_ALLOW_ALL_ORIGINS = False, PROJECT_NAME = ''HamkeeFastAPI'',
            PROJECT_VERSION = ''2025.01'', ENVIRONMENT = PRODUCTION, TESTING_field = None\<rparr>
   \<and> env_source staging_process (env_file_in_force None) ''DEBUG'' = None
   \<and> env_source staging_process (env_file_in_force None) ''CORS_ALLOW_ALL_ORIGINS'' = None"
  using production_flags_follow_environment[OF staging_process_cache
      staging_process_explicit_production]
    staging_process_explicit_production
  by (simp add: staging_process_def)

text \<open>
  Claim C4, as stated, fails: with \<open>ENVIRONMENT=production\<close>, \<open>DEBUG=true\<close> and
  \<open>CORS_ALLOW_ALL_ORIGINS=true\<close> in the environment file, the production settings
  have both flags true, whether production is selected by the file or by the argument.
\<close>
theorem production_flags_counterexample:
  "fst (create None None production_process)
     = Inr \<lparr>instance_of = ProductionSettings, instance_id = 1, DEBUG = True,
            HOST = ''127.0.0.1'', PORT = 8000, API_PREFIX = ''/api'',
            CORS_ALLOW_ALL_ORIGINS = True, PROJECT_NAME = ''HamkeeFastAPI'',
            PROJECT_VERSION = ''2025.01'', ENVIRONMENT = PRODUCTION, TESTING_field = None\<rparr>
   \<and> fst (create None (Some ''production'') production_process)
     = Inr \<lparr>instance_of = ProductionSettings, instance_id = 1, DEBUG = True,
            HOST = ''127.0.0.1'', PORT = 8000, API_PREFIX = ''/api'',
            CORS_ALLOW_ALL_ORIGINS = True, PROJECT_NAME = ''HamkeeFastAPI'',
            PROJECT_VERSION = ''2025.01'', ENVIRONMENT = PRODUCTION, TESTING_field = None\<rparr>"
  by code_simp





section \<open>The cache of the settings factory\<close>

lemma validated_fields_empty:
  assumes "env_source w = (\<lambda>path name. None)"
  shows "validated_fields cls
           (settings_source (base_kwargs_env_file ef) w) vi n =
     Some \<lparr>instance_of = cls, instance_id = n, DEBUG = default_DEBUG cls,
            HOST = ''127.0.0.1'', PORT = 8000, API_PREFIX = ''/api'',
            CORS_ALLOW_ALL_ORIGINS = default_CORS_ALLOW_ALL_ORIGINS cls,
            PROJECT_NAME = ''HamkeeFastAPI'', PROJECT_VERSION = ''2025.01'',
            ENVIRONMENT = DEVELOPMENT,
            TESTING_field = (if cls = TestingSettings then Some True else None)\<rparr>"
  by (cases ef rule: base_kwargs_env_file.cases)
     (simp_all add: validated_fields_def field_def settings_source_def aliased_def assms)

lemma create_body_empty:
  assumes "env_source w = (\<lambda>path name. None)"
  shows "create_body ef None w =
           (Inr (development_defaults (Suc (instances w))),
            w\<lparr>reads := Suc (Suc (reads w)), instances := Suc (Suc (instances w))\<rparr>)"
proof -
  let ?kw = "base_kwargs_env_file ef @ base_kwargs_environment None"
  let ?w1 = "w\<lparr>reads := Suc (reads w), instances := Suc (instances w)\<rparr>"
  have c1: "construct BaseAppSettings ?kw w =
      (Inr \<lparr>instance_of = BaseAppSettings, instance_id = instances w, DEBUG = False,
            HOST = ''127.0.0.1'', PORT = 8000, API_PREFIX = ''/api'',
            CORS_ALLOW_ALL_ORIGINS = False,
            PROJECT_NAME = ''HamkeeFastAPI'', PROJECT_VERSION = ''2025.01'',
            ENVIRONMENT = DEVELOPMENT, TESTING_field = None\<rparr>, ?w1)"
    by (simp add: construct_def Let_def validated_fields_empty[OF assms])
  have e1: "env_source ?w1 = (\<lambda>path name. None)" using assms by simp
  have c2: "construct DevelopmentSettings ?kw ?w1 =
      (Inr (development_defaults (Suc (instances w))),
       w\<lparr>reads := Suc (Suc (reads w)), instances := Suc (Suc (instances w))\<rparr>)"
    by (simp add: construct_def Let_def validated_fields_empty[OF e1] development_defaults_def)
  show ?thesis
    unfolding create_body_def Let_def c1 using c2
    by (simp add: env_settings_map_def)
qed

lemma create_miss_empty:
  assumes "env_source w = (\<lambda>path name. None)"
    and "map_of (create_cache w) (ef, None) = None"
  shows "create ef None w =
           (Inr (development_defaults (Suc (instances w))),
            w\<lparr>reads := Suc (Suc (reads w)), instances := Suc (Suc (instances w)),
              create_cache := take maxsize (((ef, None), development_defaults (Suc (instances w)))
                                              # create_cache w)\<rparr>)"
  using assms(2) by (simp add: create_def Let_def create_body_empty[OF assms(1)])

lemma take_append_take: "take m (xs @ take m ys) = take m (xs @ ys)"
  by (simp add: min_def)

lemma fresh_calls:
  assumes "env_source w = (\<lambda>path name. None)"
    and "distinct ks"
    and "\<forall>k\<in>set ks. snd k = None"
    and "set ks \<inter> fst ` set (create_cache w) = {}"
    and "length (create_cache w) \<le> maxsize"
  shows "\<exists>new. create_cache (get_settings_calls ks w) = take maxsize (new @ create_cache w)
           \<and> map fst new = rev ks
           \<and> env_source (get_settings_calls ks w) = (\<lambda>path name. None)
           \<and> instances (get_settings_calls ks w) = instances w + 2 * length ks
           \<and> reads (get_settings_calls ks w) = reads w + 2 * length ks"
  using assms
proof (induction ks arbitrary: w)
  case Nil
  show ?case using Nil.prems(1,5) by (intro exI[of _ "[]"]) simp
next
  case (Cons k ks)
  obtain ef where k: "k = (ef, None)" using Cons.prems(3) by (cases k) auto
  have "k \<notin> fst ` set (create_cache w)" using Cons.prems(4) by auto
  then have miss: "map_of (create_cache w) (ef, None) = None"
    by (simp add: k map_of_eq_None_iff)
  let ?v = "development_defaults (Suc (instances w))"
  let ?w1 = "w\<lparr>reads := Suc (Suc (reads w)), instances := Suc (Suc (instances w)),
              create_cache := take maxsize ((k, ?v) # create_cache w)\<rparr>"
  have step: "snd (get_settings (fst k) (snd k) w) = ?w1"
    using create_miss_empty[OF Cons.prems(1) miss] by (simp add: get_settings_def k)
  have e1: "env_source ?w1 = (\<lambda>path name. None)" using Cons.prems(1) by simp
  have d: "distinct ks" using Cons.prems(2) by simp
  have n: "\<forall>k\<in>set ks. snd k = None" using Cons.prems(3) by simp
  have "fst ` set (create_cache ?w1) \<subseteq> insert k (fst ` set (create_cache w))"
    using set_take_subset[of maxsize "(k, ?v) # create_cache w"] by auto
  moreover have "k \<notin> set ks" using Cons.prems(2) by simp
  ultimately have f: "set ks \<inter> fst ` set (create_cache ?w1) = {}"
    using Cons.prems(4) by auto
  have l: "length (create_cache ?w1) \<le> maxsize" by simp
  from Cons.IH[OF e1 d n f l] obtain new where
    new: "create_cache (get_settings_calls ks ?w1) = take maxsize (new @ create_cache ?w1)"
      "map fst new = rev ks"
      "env_source (get_settings_calls ks ?w1) = (\<lambda>path name. None)"
      "instances (get_settings_calls ks ?w1) = instances ?w1 + 2 * length ks"
      "reads (get_settings_calls ks ?w1) = reads ?w1 + 2 * length ks"
    by blast
  have c: "create_cache (get_settings_calls (k # ks) w)
             = take maxsize ((new @ [(k, ?v)]) @ create_cache w)"
    using new(1) by (simp add: step take_append_take)
  show ?case
    using c new(2-5) by (intro exI[of _ "new @ [(k, ?v)]"]) (simp add: step)
qed

lemma construct_cache: "create_cache (snd (construct cls kw w)) = create_cache w"
  by (simp add: construct_def Let_def split: option.splits)

lemma create_body_cache: "create_cache (snd (create_body ef en w)) = create_cache w"
proof (cases "construct BaseAppSettings (base_kwargs_env_file ef @ base_kwargs_environment en) w")
  case (Pair r w1)
  then have w1: "create_cache w1 = create_cache w"
    using construct_cache[of BaseAppSettings "base_kwargs_env_file ef @ base_kwargs_environment en" w]
    by simp
  show ?thesis
  proof (cases r)
    case (Inl e)
    with Pair w1 show ?thesis by (simp add: create_body_def Let_def)
  next
    case (Inr b)
    with Pair w1 show ?thesis by (simp add: create_body_def Let_def construct_cache)
  qed
qed

lemma create_head:
  assumes "fst (create ef en w) = Inr s"
  shows "\<exists>rest. create_cache (snd (create ef en w)) = ((ef, en), s) # rest"
proof (cases "map_of (create_cache w) (ef, en)")
  case (Some v)
  with assms show ?thesis by (simp add: create_def Let_def)
next
  case None
  obtain r w1 where b: "create_body ef en w = (r, w1)" by (cases "create_body ef en w")
  show ?thesis
  proof (cases r)
    case (Inl e)
    with None b assms show ?thesis by (simp add: create_def Let_def)
  next
    case (Inr v)
    with None b assms have "v = s" by (simp add: create_def Let_def)
    with None b Inr show ?thesis by (simp add: create_def Let_def maxsize_def)
  qed
qed

lemma create_hit:
  assumes "create_cache w = pre @ (key, s) # suf" and "key \<notin> fst ` set pre"
  shows "create (fst key) (snd key) w =
           (Inr s, w\<lparr>create_cache := (key, s) # filter (\<lambda>kv. fst kv \<noteq> key) (create_cache w)\<rparr>)"
proof -
  have "map_of pre key = None" using assms(2) by (simp add: map_of_eq_None_iff)
  then have "map_of (create_cache w) key = Some s"
    by (simp add: assms(1) map_add_def)
  then show ?thesis by (simp add: create_def Let_def)
qed

lemma length_le_card_keys:
  assumes "distinct (map fst pre)" and "fst ` set pre \<subseteq> K" and "finite K"
  shows "length pre \<le> card K"
proof -
  have "length pre = card (set (map fst pre))"
    using assms(1) by (simp add: distinct_card del: set_map)
  also have "\<dots> \<le> card K" using assms(2,3) by (simp add: card_mono)
  finally show ?thesis .
qed

lemma create_keeps_entry:
  assumes c: "create_cache w = pre @ (key, s) # suf"
    and d: "distinct (map fst pre)"
    and nk: "key \<notin> fst ` set pre"
    and sub: "fst ` set pre \<subseteq> K"
    and fin: "finite K"
    and card: "card (insert k K) < maxsize"
    and ne: "k \<noteq> key"
  shows "\<exists>pre' suf'. create_cache (snd (create (fst k) (snd k) w)) = pre' @ (key, s) # suf'
           \<and> distinct (map fst pre') \<and> key \<notin> fst ` set pre' \<and> fst ` set pre' \<subseteq> insert k K"
proof (cases "map_of (create_cache w) k")
  case (Some v)
  let ?P = "\<lambda>kv. fst kv \<noteq> k"
  have "create_cache (snd (create (fst k) (snd k) w))
          = ((k, v) # filter ?P pre) @ (key, s) # filter ?P suf"
    using Some ne by (simp add: create_def Let_def c)
  moreover have "distinct (map fst ((k, v) # filter ?P pre))"
    using d by (auto simp: distinct_map_filter)
  moreover have "key \<notin> fst ` set ((k, v) # filter ?P pre)" using nk ne by auto
  moreover have "fst ` set ((k, v) # filter ?P pre) \<subseteq> insert k K" using sub by auto
  ultimately show ?thesis by blast
next
  case None
  obtain r w1 where b: "create_body (fst k) (snd k) w = (r, w1)"
    by (cases "create_body (fst k) (snd k) w")
  have cw1: "create_cache w1 = create_cache w"
    using create_body_cache[of "fst k" "snd k" w] b by simp
  have cr: "create (fst k) (snd k) w =
      (case r of
         Inl err \<Rightarrow> (Inl err, w1)
       | Inr v \<Rightarrow> (Inr v, w1\<lparr>create_cache := take maxsize ((k, v) # create_cache w1)\<rparr>))"
    using None b by (simp add: create_def Let_def split: sum.splits)
  show ?thesis
  proof (cases r)
    case (Inl e)
    then have "create_cache (snd (create (fst k) (snd k) w)) = pre @ (key, s) # suf"
      using cr cw1 c by simp
    with d nk sub show ?thesis by blast
  next
    case (Inr v)
    let ?pre = "(k, v) # pre"
    have knew: "k \<notin> fst ` set (create_cache w)"
      using None by (simp add: map_of_eq_None_iff)
    then have kpre: "k \<notin> fst ` set pre" by (auto simp: c)
    have d': "distinct (map fst ?pre)" using d kpre by simp
    have sub': "fst ` set ?pre \<subseteq> insert k K" using sub by auto
    have "length ?pre \<le> card (insert k K)"
      using length_le_card_keys[OF d' sub'] fin by simp
    then have "length ?pre < maxsize" using card by simp
    then obtain m where m: "maxsize - length ?pre = Suc m"
      by (metis Suc_diff_Suc)
    have "create_cache (snd (create (fst k) (snd k) w)) = take maxsize (?pre @ (key, s) # suf)"
      using cr cw1 c Inr by simp
    also have "\<dots> = ?pre @ take (maxsize - length ?pre) ((key, s) # suf)"
      using \<open>length ?pre < maxsize\<close> by (simp only: take_append) simp
    also have "\<dots> = ?pre @ (key, s) # take m suf" by (simp only: m take_Suc_Cons)
    finally have "create_cache (snd (create (fst k) (snd k) w)) = ?pre @ (key, s) # take m suf" .
    moreover have "key \<notin> fst ` set ?pre" using nk ne by auto
    ultimately show ?thesis using d' sub' by blast
  qed
qed

lemma calls_keep_entry:
  assumes "create_cache w = pre @ (key, s) # suf"
    and "distinct (map fst pre)"
    and "key \<notin> fst ` set pre"
    and "fst ` set pre \<subseteq> K"
    and "finite K"
    and "card (K \<union> (set ks - {key})) < maxsize"
  shows "\<exists>pre' suf'. create_cache (get_settings_calls ks w) = pre' @ (key, s) # suf'
           \<and> key \<notin> fst ` set pre'"
  using assms
proof (induction ks arbitrary: w pre suf K)
  case Nil
  then show ?case by auto
next
  case (Cons k ks)
  show ?case
  proof (cases "k = key")
    case True
    have "create_cache (snd (get_settings (fst k) (snd k) w))
            = [] @ (key, s) # filter (\<lambda>kv. fst kv \<noteq> key) (create_cache w)"
      using create_hit[OF Cons.prems(1,3)] True by (simp add: get_settings_def)
    moreover have "card ({} \<union> (set ks - {key})) < maxsize"
    proof -
      have "card (set ks - {key}) \<le> card (K \<union> (set (k # ks) - {key}))"
        using Cons.prems(5) by (intro card_mono) auto
      with Cons.prems(6) show ?thesis by simp
    qed
    ultimately show ?thesis
      using Cons.IH[of "snd (get_settings (fst k) (snd k) w)" "[]"
          "filter (\<lambda>kv. fst kv \<noteq> key) (create_cache w)" "{}"]
      by simp
  next
    case False
    have "card (insert k K) \<le> card (K \<union> (set (k # ks) - {key}))"
      using Cons.prems(5) False by (intro card_mono) auto
    with Cons.prems(6) have ck: "card (insert k K) < maxsize" by simp
    from create_keeps_entry[OF Cons.prems(1-5) ck False] obtain pre' suf' where
      p: "create_cache (snd (create (fst k) (snd k) w)) = pre' @ (key, s) # suf'"
         "distinct (map fst pre')" "key \<notin> fst ` set pre'" "fst ` set pre' \<subseteq> insert k K"
      by blast
    have "insert k K \<union> (set ks - {key}) = K \<union> (set (k # ks) - {key})"
      using False by auto
    with Cons.prems(6) have c': "card (insert k K \<union> (set ks - {key})) < maxsize" by simp
    have f': "finite (insert k K)" using Cons.prems(5) by simp
    from Cons.IH[OF p[folded get_settings_def] f' c'] show ?thesis by simp
  qed
qed

lemma other_keys_facts:
  "distinct other_keys"
  "\<forall>k\<in>set other_keys. snd k = None"
  "(None, None) \<notin> set other_keys"
  "length other_keys = 128"
proof -
  have "inj_on (\<lambda>n. (Some (Path (replicate (Suc n) CHR ''a'')), None :: string option)) A" for A
    by (rule inj_onI) (simp add: replicate_eq_replicate)
  then show "distinct other_keys" by (simp add: other_keys_def distinct_map)
  show "\<forall>k\<in>set other_keys. snd k = None" by (auto simp: other_keys_def)
  show "(None, None) \<notin> set other_keys" by (auto simp: other_keys_def)
  show "length other_keys = 128" by (simp add: other_keys_def)
qed

lemma empty_process_first_call:
  "get_settings None None empty_process =
     (Inr (development_defaults 1),
      empty_process\<lparr>reads := 2, instances := 2,
                     create_cache := [((None, None), development_defaults 1)]\<rparr>)"
proof -
  have e: "env_source empty_process = (\<lambda>path name. None)" by (simp add: empty_process_def)
  have m: "map_of (create_cache empty_process) (None, None) = None"
    by (simp add: empty_process_def)
  show ?thesis
    using create_miss_empty[OF e m]
    by (simp add: get_settings_def empty_process_def maxsize_def numeral_2_eq_2)
qed

text \<open>
  Claim C5, as amended. When a call of \<open>get_settings\<close> has returned a settings
  object, and fewer than 128 distinct other argument pairs are requested afterwards, a
  further call with the same argument pair returns that very object, and neither reads
  the environment nor constructs anything.
\<close>
theorem get_settings_cached_instance:
  assumes "fst (get_settings env_file environment w) = Inr s"
    and "card (set ks - {(env_file, environment)}) < maxsize"
  shows "fst (get_settings env_file environment
                (get_settings_calls ks (snd (get_settings env_file environment w)))) = Inr s
         \<and> reads (snd (get_settings env_file environment
                (get_settings_calls ks (snd (get_settings env_file environment w)))))
             = reads (get_settings_calls ks (snd (get_settings env_file environment w)))
         \<and> instances (snd (get_settings env_file environment
                (get_settings_calls ks (snd (get_settings env_file environment w)))))
             = instances (get_settings_calls ks (snd (get_settings env_file environment w)))"
proof -
  let ?key = "(env_file, environment)"
  let ?w1 = "snd (get_settings env_file environment w)"
  let ?w2 = "get_settings_calls ks ?w1"
  from create_head[of env_file environment w s] assms(1) obtain rest where
    h: "create_cache ?w1 = [] @ (?key, s) # rest" by (auto simp: get_settings_def)
  have "card ({} \<union> (set ks - {?key})) < maxsize" using assms(2) by simp
  from calls_keep_entry[OF h _ _ _ _ this] obtain pre' suf' where
    p: "create_cache ?w2 = pre' @ (?key, s) # suf'" "?key \<notin> fst ` set pre'"
    by auto
  from create_hit[OF p] show ?thesis by (simp add: get_settings_def)
qed

text \<open>
  A concrete run: the default settings, asked for again after a request for production
  and one for staging.
\<close>
theorem get_settings_cached_instance_witness:
  "fst (get_settings None None empty_process) = Inr (development_defaults 1)
   \<and> card (set [(None, Some ''production''), (None, Some ''staging'')] - {(None, None)}) < maxsize
   \<and> fst (get_settings None None
            (get_settings_calls [(None, Some ''production''), (None, Some ''staging'')]
               (snd (get_settings None None empty_process))))
       = Inr (development_defaults 1)"
proof -
  have a: "fst (get_settings None None empty_process) = Inr (development_defaults 1)"
    by (simp add: empty_process_first_call)
  have b: "card (set [(None, Some ''production''), (None, Some ''staging'')]
                  - {(None :: env_file_arg option, None)}) < maxsize"
    by (simp add: maxsize_def)
  show ?thesis
    using get_settings_cached_instance[OF a b] a b by simp
qed

text \<open>
  Claim C5, as stated, fails: the cache holds 128 entries. After 128 calls with other
  argument pairs the first entry is gone, and the second call with the first pair reads
  the environment again and returns a new object.
\<close>
theorem get_settings_evicted_counterexample:
  "fst (get_settings None None empty_process) = Inr (development_defaults 1)
   \<and> fst (get_settings None None
            (get_settings_calls other_keys (snd (get_settings None None empty_process))))
       = Inr (development_defaults 259)
   \<and> development_defaults 259 \<noteq> development_defaults 1
   \<and> reads (snd (get_settings None None
              (get_settings_calls other_keys (snd (get_settings None None empty_process)))))
       = reads (get_settings_calls other_keys (snd (get_settings None None empty_process))) + 2"
proof -
  let ?w1 = "empty_process\<lparr>reads := 2, instances := 2,
                     create_cache := [((None, None), development_defaults 1)]\<rparr>"
  let ?W = "get_settings_calls other_keys ?w1"
  have e1: "env_source ?w1 = (\<lambda>path name. None)" by (simp add: empty_process_def)
  have f1: "set other_keys \<inter> fst ` set (create_cache ?w1) = {}"
    using other_keys_facts(3) by simp
  have l1: "length (create_cache ?w1) \<le> maxsize" by (simp add: maxsize_def)
  from fresh_calls[OF e1 other_keys_facts(1,2) f1 l1] obtain new where
    new: "create_cache ?W = take maxsize (new @ create_cache ?w1)"
      "map fst new = rev other_keys"
      "env_source ?W = (\<lambda>path name. None)"
      "instances ?W = instances ?w1 + 2 * length other_keys"
      "reads ?W = reads ?w1 + 2 * length other_keys"
    by blast
  have "length new = 128"
    using new(2) other_keys_facts(4) by (metis length_map length_rev)
  then have cache: "create_cache ?W = new" using new(1) by (simp add: maxsize_def)
  have "fst ` set new = set other_keys"
    using new(2) by (metis set_map set_rev)
  then have "(None, None) \<notin> fst ` set new" using other_keys_facts(3) by simp
  then have "map_of new (None, None) = None" by (simp only: map_of_eq_None_iff not_False_eq_True)
  then have miss: "map_of (create_cache ?W) (None, None) = None" by (simp only: cache)
  have inst: "instances ?W = 258" using new(4) other_keys_facts(4) by simp
  have c: "fst (create None None ?W) = Inr (development_defaults 259)"
      "reads (snd (create None None ?W)) = reads ?W + 2"
    using create_miss_empty[OF new(3) miss] inst by simp_all
  have d: "development_defaults 259 \<noteq> development_defaults 1"
    by (simp add: development_defaults_def)
  show ?thesis
    using c d by (simp add: empty_process_first_call get_settings_def[symmetric])
qed

end
